theory Spec2Isabelle
  imports Complex_Main "HOL-Library.AList" "HOL-Library.Sublist"
begin

section \<open>Strings and POSIX paths\<close>

text \<open>
  The script runs on CPython; its path helpers are the ones of \<open>posixpath\<close>.
  They are pure string functions and are written out here as CPython computes them.
\<close>

text \<open>\<open>os.path.basename(p)\<close>: everything after the last slash.\<close>

definition os_path_basename :: "string \<Rightarrow> string" where
  "os_path_basename p = rev (takeWhile (\<lambda>c. c \<noteq> CHR ''/'') (rev p))"

text \<open>
  \<open>os.path.dirname(p)\<close>: everything up to and including the last slash, with the
  trailing slashes removed unless the head consists of slashes only.
\<close>

definition os_path_dirname :: "string \<Rightarrow> string" where
  "os_path_dirname p =
     (let head = rev (dropWhile (\<lambda>c. c \<noteq> CHR ''/'') (rev p))
      in if head \<noteq> [] \<and> list_ex (\<lambda>c. c \<noteq> CHR ''/'') head
         then rev (dropWhile (\<lambda>c. c = CHR ''/'') (rev head))
         else head)"

text \<open>
  \<open>os.path.splitext(p)\<close>: split at the last dot of the last path component, unless
  that component has no dot or only dots before its last dot.
\<close>

definition os_path_splitext :: "string \<Rightarrow> string \<times> string" where
  "os_path_splitext p =
     (let head = rev (dropWhile (\<lambda>c. c \<noteq> CHR ''/'') (rev p));
          tail = os_path_basename p;
          ext = rev (takeWhile (\<lambda>c. c \<noteq> CHR ''.'') (rev tail));
          stem = rev (drop 1 (dropWhile (\<lambda>c. c \<noteq> CHR ''.'') (rev tail)))
      in if CHR ''.'' \<in> set tail \<and> list_ex (\<lambda>c. c \<noteq> CHR ''.'') stem
         then (head @ stem, CHR ''.'' # ext)
         else (p, []))"

text \<open>\<open>os.path.join(a, b)\<close> for two components.\<close>

definition os_path_join :: "string \<Rightarrow> string \<Rightarrow> string" where
  "os_path_join a b =
     (if b \<noteq> [] \<and> hd b = CHR ''/'' then b
      else if a = [] \<or> last a = CHR ''/'' then a @ b
      else a @ [CHR ''/''] @ b)"

text \<open>
  \<open>s.replace(old, new)\<close>: every non-overlapping occurrence of \<open>old\<close>, found from
  left to right, is replaced. With an empty \<open>old\<close> Python puts \<open>new\<close> around every
  character.
\<close>

function replace_from :: "string \<Rightarrow> string \<Rightarrow> string \<Rightarrow> string" where
  "replace_from old new [] = []"
| "replace_from old new (c # cs) =
     (if old \<noteq> [] \<and> take (length old) (c # cs) = old
      then new @ replace_from old new (drop (length old) (c # cs))
      else c # replace_from old new cs)"
  by pat_completeness auto
termination
  by (relation "measure (\<lambda>(old, new, s). length s)") auto

definition str_replace :: "string \<Rightarrow> string \<Rightarrow> string \<Rightarrow> string" where
  "str_replace s old new =
     (if old = [] then new @ concat (map (\<lambda>c. c # new) s)
      else replace_from old new s)"

section \<open>Data frames\<close>

text \<open>
  A cell of a pandas frame is a string, an integer, a float or the absent value NaN.
  A float is given by its value, a rational number; infinities are left out. A row maps
  column names to cells; a frame is its ordered column index and its rows.
\<close>

datatype cell = Str string | Num int | Flt rat | NaN

type_synonym row = "(string \<times> cell) list"

record dataframe =
  columns :: "string list"
  rows :: "row list"

definition cell_at :: "row \<Rightarrow> string \<Rightarrow> cell" where
  "cell_at r c = (case map_of r c of Some v \<Rightarrow> v | None \<Rightarrow> NaN)"

text \<open>
  What a cell is for \<open>==\<close> and for hashing: an integer and a float of the same value
  are the same, a string is only itself.
\<close>

datatype cell_key = KStr string | KNum rat | KNaN

fun key_of :: "cell \<Rightarrow> cell_key" where
  "key_of (Str s) = KStr s"
| "key_of (Num n) = KNum (of_int n)"
| "key_of (Flt x) = KNum x"
| "key_of NaN = KNaN"

text \<open>Elementwise \<open>==\<close> of pandas: an absent value equals nothing, itself included.\<close>

definition cell_eq :: "cell \<Rightarrow> cell \<Rightarrow> bool" where
  "cell_eq a b = (a \<noteq> NaN \<and> b \<noteq> NaN \<and> key_of a = key_of b)"

text \<open>\<open>df.empty\<close>: some axis has length zero.\<close>

definition df_empty :: "dataframe \<Rightarrow> bool" where
  "df_empty df = (rows df = [] \<or> columns df = [])"

text \<open>\<open>len(df)\<close>: the number of rows.\<close>

definition df_len :: "dataframe \<Rightarrow> nat" where
  "df_len df = length (rows df)"

text \<open>\<open>df[c] = v\<close> with a scalar: overwrite the column, or append it as the last one.\<close>

definition set_column :: "string \<Rightarrow> cell \<Rightarrow> dataframe \<Rightarrow> dataframe" where
  "set_column c v df =
     df\<lparr>columns := (if c \<in> set (columns df) then columns df else columns df @ [c]),
        rows := map (AList.update c v) (rows df)\<rparr>"

text \<open>\<open>df[mask]\<close>: the rows selected by a boolean mask, same columns.\<close>

definition select_rows :: "(row \<Rightarrow> bool) \<Rightarrow> dataframe \<Rightarrow> dataframe" where
  "select_rows P df = df\<lparr>rows := filter P (rows df)\<rparr>"

text \<open>
  \<open>unique()\<close>: the distinct values in order of first appearance, where two values are
  the same when their keys are; the first one seen stands for the others. For a column
  of cells the key is \<open>key_of\<close>, so the absent value counts as one value; for the names
  of an index the key is the name.
\<close>

fun unique_from :: "('a \<Rightarrow> 'k) \<Rightarrow> 'k list \<Rightarrow> 'a list \<Rightarrow> 'a list" where
  "unique_from key seen [] = []"
| "unique_from key seen (x # xs) =
     (if key x \<in> set seen then unique_from key seen xs
      else x # unique_from key (key x # seen) xs)"

definition pd_unique :: "('a \<Rightarrow> 'k) \<Rightarrow> 'a list \<Rightarrow> 'a list" where
  "pd_unique key xs = unique_from key [] xs"

text \<open>
  The dtype of a column of a frame, read off its cells: \<open>int64\<close> when all are integers,
  \<open>float64\<close> when all are numbers or absent, \<open>object\<close> otherwise.
\<close>

datatype dtype = Int64 | Float64 | Object

definition is_int :: "cell \<Rightarrow> bool" where
  "is_int v = (case v of Num n \<Rightarrow> True | _ \<Rightarrow> False)"

definition is_numeric :: "cell \<Rightarrow> bool" where
  "is_numeric v = (case v of Str s \<Rightarrow> False | _ \<Rightarrow> True)"

definition column_dtype :: "dataframe \<Rightarrow> string \<Rightarrow> dtype" where
  "column_dtype df c =
     (let vs = map (\<lambda>r. cell_at r c) (rows df)
      in if vs = [] then Object
         else if list_all is_int vs then Int64
         else if list_all is_numeric vs then Float64
         else Object)"

text \<open>
  \<open>pd.concat(frames, ignore_index=True)\<close>: the column index is the union of the
  frames' columns in order of first appearance, the rows follow frame by frame, and a
  row of a frame that lacks a column gets NaN there. The dtype of a column of the
  result is \<open>object\<close> when some frame has it as \<open>object\<close>, \<open>int64\<close> when every frame has
  it as \<open>int64\<close>, and \<open>float64\<close> otherwise, in particular when a frame with an integer
  column meets a frame without that column; in a \<open>float64\<close> column every integer is
  turned into the nearest float (\<open>to_f64\<close>).
\<close>

definition concat_dtype :: "dataframe list \<Rightarrow> string \<Rightarrow> dtype" where
  "concat_dtype dfs c =
     (if list_ex (\<lambda>df. c \<in> set (columns df) \<and> column_dtype df c = Object) dfs then Object
      else if list_all (\<lambda>df. c \<in> set (columns df) \<and> column_dtype df c = Int64) dfs then Int64
      else Float64)"

definition upcast :: "(int \<Rightarrow> rat) \<Rightarrow> dtype \<Rightarrow> cell \<Rightarrow> cell" where
  "upcast to_f64 t v =
     (case v of Num n \<Rightarrow> (if t = Float64 then Flt (to_f64 n) else Num n) | _ \<Rightarrow> v)"

definition reindex :: "(int \<Rightarrow> rat) \<Rightarrow> dataframe list \<Rightarrow> string list \<Rightarrow> dataframe \<Rightarrow> row \<Rightarrow> row" where
  "reindex to_f64 dfs cols df r =
     map (\<lambda>c. (c, if c \<in> set (columns df)
                  then upcast to_f64 (concat_dtype dfs c) (cell_at r c) else NaN)) cols"

definition pd_concat :: "(int \<Rightarrow> rat) \<Rightarrow> dataframe list \<Rightarrow> dataframe" where
  "pd_concat to_f64 dfs =
     (let cols = pd_unique (\<lambda>c. c) (concat (map columns dfs))
      in \<lparr>columns = cols,
          rows = concat (map (\<lambda>df. map (reindex to_f64 dfs cols df) (rows df)) dfs)\<rparr>)"

text \<open>\<open>str\<close> of an integer: its decimal digits, with a minus sign when negative.\<close>

definition digit_char :: "nat \<Rightarrow> char" where
  "digit_char d = ''0123456789'' ! d"

function nat_str :: "nat \<Rightarrow> string" where
  "nat_str n = (if n < 10 then [digit_char n] else nat_str (n div 10) @ [digit_char (n mod 10)])"
  by pat_completeness auto
termination
  by (relation "measure (\<lambda>n. n)") auto

definition int_str :: "int \<Rightarrow> string" where
  "int_str i = (if i < 0 then CHR ''-'' # nat_str (nat (- i)) else nat_str (nat i))"

section \<open>The environment: operating system, child process, parser\<close>

text \<open>
  What the script asks of the outside world is a parameter of the model. \<open>'w\<close> is the
  state of the world (the file system), \<open>'f\<close> the type of floats.
  \<^item> \<open>os_listdir\<close> is \<open>None\<close> when \<open>os.listdir\<close> raises.
  \<^item> \<open>subprocess_run\<close> runs the command to its end and returns how it ended and the
    world it left behind: \<open>Exited\<close> with the exit status and the captured standard
    output and standard error, or \<open>Raised\<close> when \<open>subprocess.run\<close> itself raises an
    exception (of class \<open>Exception\<close>), for instance when the interpreter is not found.
  \<^item> \<open>pd_read_csv\<close> is \<open>pd.read_csv(path, delim_whitespace=True)\<close>; \<open>None\<close> when it
    raises.
  \<^item> \<open>os_remove\<close> returns the world after the call. A failed removal raises in
    Python; the script ignores that exception, so the model needs the world only.
  \<^item> \<open>to_csv\<close> is \<open>df.to_csv(path, index=False)\<close>: whether the file was written
    (\<open>False\<close> when the call raises, for instance for a name with a slash into a
    directory that does not exist) and the world afterwards.
  \<^item> \<open>stdout_encodes_arrow\<close>: whether the encoding of the standard output has the
    character U+2192, which two messages of \<open>main\<close> contain; \<open>print\<close> raises on
    them when it has not.
  \<^item> \<open>float_str\<close> is \<open>str\<close> on a float, which is also what an f-string prints;
    \<open>f64_str\<close> is the same for the float in a cell, given by its value.
  \<^item> \<open>to_f64\<close> turns an integer into the nearest float.
\<close>

datatype proc_outcome =
    Exited int string string
  | Raised string

record ('w, 'f) env =
  os_path_exists :: "'w \<Rightarrow> string \<Rightarrow> bool"
  os_path_isdir :: "'w \<Rightarrow> string \<Rightarrow> bool"
  os_listdir :: "'w \<Rightarrow> string \<Rightarrow> string list option"
  glob_glob :: "'w \<Rightarrow> string \<Rightarrow> string list"
  subprocess_run :: "'w \<Rightarrow> string list \<Rightarrow> proc_outcome \<times> 'w"
  pd_read_csv :: "'w \<Rightarrow> string \<Rightarrow> dataframe option"
  os_remove :: "'w \<Rightarrow> string \<Rightarrow> 'w"
  to_csv :: "'w \<Rightarrow> string \<Rightarrow> dataframe \<Rightarrow> bool \<times> 'w"
  stdout_encodes_arrow :: bool
  float_str :: "'f \<Rightarrow> string"
  f64_str :: "rat \<Rightarrow> string"
  to_f64 :: "int \<Rightarrow> rat"

text \<open>
  What the script does to the world is recorded as a trace: every \<open>print\<close> that
  was made, every child process started, every \<open>os.remove\<close> and every \<open>to_csv\<close>
  that wrote its file, in order. A \<open>to_csv\<close> replaces the file of that name.
\<close>

datatype msg =
    PredictionsNotFound string
  | ProcessingFolder string
  | FoundPair string string
  | WarnCifNotFound string
  | Running "string list"
  | WarnOutputNotFound string
  | ErrorRunning int
  | Stdout string
  | Stderr string
  | UnexpectedError string
  | ErrorParsing string
  | OutDirNotFound string
  | ScriptNotFound string
  | FindingPairs
  | NoPairsFound
  | FoundPairs nat
  | Processing nat nat string
  | SuccessfullyProcessed nat
  | FailedToParse string
  | FailedToGenerate
  | Combined nat nat
  | FoundTypes "cell list"
  | Saved nat string
  | SavedAB nat string
  | SavedBA nat string
  | SavedComplete nat string
  | NoResults

datatype event =
    Print msg
  | Exec "string list"
  | Remove string
  | ToCsv string dataframe

type_synonym trace = "event list"

text \<open>The files written by \<open>to_csv\<close>, in order, and what is on disk afterwards.\<close>

fun writes :: "trace \<Rightarrow> (string \<times> dataframe) list" where
  "writes [] = []"
| "writes (ToCsv f df # es) = (f, df) # writes es"
| "writes (_ # es) = writes es"


fun removals :: "trace \<Rightarrow> string list" where
  "removals [] = []"
| "removals (Remove f # es) = f # removals es"
| "removals (_ # es) = removals es"

fun warnings :: "trace \<Rightarrow> string list" where
  "warnings [] = []"
| "warnings (Print (WarnCifNotFound b) # es) = b # warnings es"
| "warnings (_ # es) = warnings es"

section \<open>Pair discovery: \<open>find_boltz_structures\<close>\<close>

type_synonym structure_pair = "string \<times> string \<times> string"

definition pae_pattern :: "string \<Rightarrow> string" where
  "pae_pattern input_folder = ''pae_'' @ input_folder @ ''_model_*.npz''"

definition model_part :: "string \<Rightarrow> string \<Rightarrow> string" where
  "model_part input_folder pae_basename =
     str_replace (str_replace pae_basename (''pae_'' @ input_folder @ ''_'') '''') ''.npz'' ''''"

definition cif_for :: "string \<Rightarrow> string \<Rightarrow> string \<Rightarrow> string" where
  "cif_for input_path input_folder pae_file =
     os_path_join input_path
       (input_folder @ ''_'' @ model_part input_folder (os_path_basename pae_file) @ ''.cif'')"

text \<open>
  The inner loop over the PAE files of one folder: what it appends to
  \<open>structure_pairs\<close> and what it prints.
\<close>

fun scan_pae_files ::
  "('w, 'f) env \<Rightarrow> 'w \<Rightarrow> string \<Rightarrow> string \<Rightarrow> string list \<Rightarrow>
   structure_pair list \<times> trace" where
  "scan_pae_files E w input_path input_folder [] = ([], [])"
| "scan_pae_files E w input_path input_folder (pae_file # rest) =
     (let pae_basename = os_path_basename pae_file;
          cif_file = cif_for input_path input_folder pae_file;
          (pairs, tr) = scan_pae_files E w input_path input_folder rest
      in if os_path_exists E w cif_file
         then ((pae_file, cif_file, input_folder) # pairs,
               Print (FoundPair (os_path_basename pae_file) (os_path_basename cif_file)) # tr)
         else (pairs, Print (WarnCifNotFound pae_basename) # tr))"

text \<open>The outer loop over the entries of the predictions directory.\<close>

fun scan_folders ::
  "('w, 'f) env \<Rightarrow> 'w \<Rightarrow> string \<Rightarrow> string list \<Rightarrow> structure_pair list \<times> trace" where
  "scan_folders E w predictions_dir [] = ([], [])"
| "scan_folders E w predictions_dir (input_folder # rest) =
     (let input_path = os_path_join predictions_dir input_folder;
          (pairs, tr) = scan_folders E w predictions_dir rest
      in if \<not> os_path_isdir E w input_path then (pairs, tr)
         else (let pae_files = glob_glob E w (os_path_join input_path (pae_pattern input_folder));
                   (found, tr_folder) = scan_pae_files E w input_path input_folder pae_files
               in (found @ pairs, Print (ProcessingFolder input_folder) # tr_folder @ tr)))"

text \<open>\<open>None\<close>: \<open>os.listdir\<close> raised, and the exception leaves the function.\<close>

definition find_boltz_structures ::
  "('w, 'f) env \<Rightarrow> 'w \<Rightarrow> string \<Rightarrow> (structure_pair list \<times> trace) option" where
  "find_boltz_structures E w out_dir =
     (let predictions_dir = os_path_join out_dir ''predictions''
      in if \<not> os_path_exists E w predictions_dir
         then Some ([], [Print (PredictionsNotFound predictions_dir)])
         else (case os_listdir E w predictions_dir of
                 None \<Rightarrow> None
               | Some entries \<Rightarrow> Some (scan_folders E w predictions_dir entries)))"

section \<open>Running the scoring tool: \<open>run_ipsae\<close>\<close>

definition ipsae_cmd ::
  "('w, 'f) env \<Rightarrow> string \<Rightarrow> string \<Rightarrow> string \<Rightarrow> 'f \<Rightarrow> 'f \<Rightarrow> string list" where
  "ipsae_cmd E ipsae_script_path pae_file cif_file pae_cutoff dist_cutoff =
     [''python'', ipsae_script_path, pae_file, cif_file,
      float_str E pae_cutoff, float_str E dist_cutoff]"

definition output_txt_name :: "('w, 'f) env \<Rightarrow> string \<Rightarrow> 'f \<Rightarrow> 'f \<Rightarrow> string" where
  "output_txt_name E cif_file pae_cutoff dist_cutoff =
     fst (os_path_splitext (os_path_basename cif_file)) @ ''_'' @ float_str E pae_cutoff
       @ ''_'' @ float_str E dist_cutoff @ ''.txt''"

text \<open>
  \<open>subprocess.run(..., check=True)\<close> raises \<open>CalledProcessError\<close> on a non-zero exit
  status; both handlers of the \<open>try\<close> return \<open>None\<close>. The result is the path (or
  \<open>None\<close>), the world the child left and the events of the call.
\<close>

definition run_ipsae ::
  "('w, 'f) env \<Rightarrow> 'w \<Rightarrow> string \<Rightarrow> string \<Rightarrow> string \<Rightarrow> 'f \<Rightarrow> 'f \<Rightarrow>
   string option \<times> 'w \<times> trace" where
  "run_ipsae E w ipsae_script_path pae_file cif_file pae_cutoff dist_cutoff =
     (let cmd = ipsae_cmd E ipsae_script_path pae_file cif_file pae_cutoff dist_cutoff;
          (outcome, w') = subprocess_run E w cmd;
          tr = [Print (Running cmd), Exec cmd]
      in case outcome of
           Exited rc out err \<Rightarrow>
             if rc = 0 then
               (let output_txt = output_txt_name E cif_file pae_cutoff dist_cutoff;
                    current_dir_output = output_txt;
                    cif_dir_output = os_path_join (os_path_dirname cif_file) output_txt
                in if os_path_exists E w' current_dir_output
                   then (Some current_dir_output, w', tr)
                   else if os_path_exists E w' cif_dir_output
                   then (Some cif_dir_output, w', tr)
                   else (None, w', tr @ [Print (WarnOutputNotFound output_txt)]))
             else (None, w', tr @ [Print (ErrorRunning rc), Print (Stdout out), Print (Stderr err)])
         | Raised e \<Rightarrow> (None, w', tr @ [Print (UnexpectedError e)]))"

section \<open>Parsing a report: \<open>parse_ipsae_output\<close>\<close>

definition parse_ipsae_output ::
  "('w, 'f) env \<Rightarrow> 'w \<Rightarrow> string \<Rightarrow> dataframe option \<times> trace" where
  "parse_ipsae_output E w txt_file =
     (case pd_read_csv E w txt_file of
        Some df \<Rightarrow> (Some df, [])
      | None \<Rightarrow> (None, [Print (ErrorParsing txt_file)]))"

section \<open>The batch: \<open>main\<close>\<close>

record 'f args =
  out_dir :: string
  ipsae_script :: string
  pae_cutoff :: 'f
  dist_cutoff :: 'f
  output_prefix :: string

text \<open>The three metadata columns added to a parsed report.\<close>

definition add_metadata :: "structure_pair \<Rightarrow> dataframe \<Rightarrow> dataframe" where
  "add_metadata p df =
     (case p of (pae_file, cif_file, input_name) \<Rightarrow>
        set_column ''cif_file'' (Str (os_path_basename cif_file))
          (set_column ''pae_file'' (Str (os_path_basename pae_file))
             (set_column ''input_name'' (Str input_name) df)))"

text \<open>
  The body of the loop over the pairs, for pair number \<open>i\<close> of \<open>n\<close>: the frame it
  appends to \<open>all_results\<close> (if any), the world afterwards and its events. A string is
  true in Python when it is not empty.
\<close>

definition process_pair ::
  "('w, 'f) env \<Rightarrow> 'f args \<Rightarrow> nat \<Rightarrow> nat \<Rightarrow> structure_pair \<Rightarrow> 'w \<Rightarrow>
   dataframe option \<times> 'w \<times> trace" where
  "process_pair E A n i p w =
     (case p of (pae_file, cif_file, input_name) \<Rightarrow>
       (let (output_txt, w1, tr_run) =
              run_ipsae E w (ipsae_script A) pae_file cif_file (pae_cutoff A) (dist_cutoff A);
            tr1 = Print (Processing i n input_name) # tr_run
        in case output_txt of
             None \<Rightarrow> (None, w1, tr1 @ [Print FailedToGenerate])
           | Some txt \<Rightarrow>
               if txt = [] then (None, w1, tr1 @ [Print FailedToGenerate])
               else
                 (let (parsed, tr_parse) = parse_ipsae_output E w1 txt;
                      tr2 = tr1 @ tr_parse
                  in case parsed of
                       None \<Rightarrow> (None, w1, tr2 @ [Print (FailedToParse txt)])
                     | Some df \<Rightarrow>
                         if df_empty df then (None, w1, tr2 @ [Print (FailedToParse txt)])
                         else
                           (let df' = add_metadata p df;
                                tr3 = tr2 @ [Print (SuccessfullyProcessed (df_len df'))]
                            in if os_path_exists E w1 txt \<and> os_path_dirname txt = []
                               then (Some df', os_remove E w1 txt, tr3 @ [Remove txt])
                               else (Some df', w1, tr3)))))"

text \<open>The loop: pairs are numbered from \<open>i\<close>; the world is threaded through.\<close>

fun process_pairs ::
  "('w, 'f) env \<Rightarrow> 'f args \<Rightarrow> nat \<Rightarrow> nat \<Rightarrow> structure_pair list \<Rightarrow> 'w \<Rightarrow>
   dataframe list \<times> 'w \<times> trace" where
  "process_pairs E A n i [] w = ([], w, [])"
| "process_pairs E A n i (p # ps) w =
     (let (r, w1, tr1) = process_pair E A n i p w;
          (rs, w2, tr2) = process_pairs E A n (Suc i) ps w1
      in ((case r of None \<Rightarrow> rs | Some df \<Rightarrow> df # rs), w2, tr1 @ tr2))"

text \<open>How a cell prints inside an f-string.\<close>

definition cell_str :: "('w, 'f) env \<Rightarrow> cell \<Rightarrow> string" where
  "cell_str E v =
     (case v of Str s \<Rightarrow> s | Num n \<Rightarrow> int_str n | Flt x \<Rightarrow> f64_str E x | NaN \<Rightarrow> ''nan'')"

definition type_file :: "('w, 'f) env \<Rightarrow> string \<Rightarrow> cell \<Rightarrow> string" where
  "type_file E pfx v = pfx @ ''_'' @ cell_str E v @ ''.csv''"

definition ab_file :: "string \<Rightarrow> string" where
  "ab_file pfx = pfx @ ''_A_to_B.csv''"

definition ba_file :: "string \<Rightarrow> string" where
  "ba_file pfx = pfx @ ''_B_to_A.csv''"

definition complete_file :: "string \<Rightarrow> string" where
  "complete_file pfx = pfx @ ''_complete.csv''"

definition type_rows :: "cell \<Rightarrow> dataframe \<Rightarrow> dataframe" where
  "type_rows v df = select_rows (\<lambda>r. cell_eq (cell_at r ''Type'') v) df"

definition chain_rows :: "string \<Rightarrow> string \<Rightarrow> dataframe \<Rightarrow> dataframe" where
  "chain_rows a b df =
     select_rows (\<lambda>r. cell_eq (cell_at r ''Chn1'') (Str a) \<and> cell_eq (cell_at r ''Chn2'') (Str b)) df"

text \<open>
  Lines 194 to 234 of the script have no \<open>try\<close>: when a \<open>to_csv\<close> or a \<open>print\<close> raises,
  the exception leaves \<open>main\<close> and nothing after it is done. A phase of the saving
  returns whether it came to its end, the world it left and its events.
\<close>

type_synonym 'w phase = "bool \<times> 'w \<times> trace"

definition and_then :: "'w phase \<Rightarrow> ('w \<Rightarrow> 'w phase) \<Rightarrow> 'w phase" where
  "and_then r f =
     (case r of (ok, w, tr) \<Rightarrow>
        if ok then (case f w of (ok', w', tr') \<Rightarrow> (ok', w', tr @ tr')) else (False, w, tr))"

definition do_print :: "msg \<Rightarrow> 'w \<Rightarrow> 'w phase" where
  "do_print m w = (True, w, [Print m])"

definition do_print_arrow :: "('w, 'f) env \<Rightarrow> msg \<Rightarrow> 'w \<Rightarrow> 'w phase" where
  "do_print_arrow E m w = (if stdout_encodes_arrow E then (True, w, [Print m]) else (False, w, []))"

definition do_to_csv :: "('w, 'f) env \<Rightarrow> string \<Rightarrow> dataframe \<Rightarrow> 'w \<Rightarrow> 'w phase" where
  "do_to_csv E f df w =
     (case to_csv E w f df of (ok, w') \<Rightarrow> (ok, w', if ok then [ToCsv f df] else []))"

text \<open>The loop over the values of the Type column.\<close>

fun save_types :: "('w, 'f) env \<Rightarrow> string \<Rightarrow> dataframe \<Rightarrow> cell list \<Rightarrow> 'w \<Rightarrow> 'w phase" where
  "save_types E pfx combined_df [] w = (True, w, [])"
| "save_types E pfx combined_df (interaction_type # rest) w =
     (let type_df = type_rows interaction_type combined_df
      in if \<not> df_empty type_df
         then
           (let output_file = type_file E pfx interaction_type
            in case and_then (do_to_csv E output_file type_df w)
                      (do_print (Saved (df_len type_df) output_file)) of
                 (ok, w1, tr1) \<Rightarrow>
                   if ok then (case save_types E pfx combined_df rest w1 of
                                 (ok', w2, tr2) \<Rightarrow> (ok', w2, tr1 @ tr2))
                   else (False, w1, tr1))
         else save_types E pfx combined_df rest w)"

text \<open>One chain-direction file, and the two of them.\<close>

definition save_chain ::
  "('w, 'f) env \<Rightarrow> string \<Rightarrow> (nat \<Rightarrow> string \<Rightarrow> msg) \<Rightarrow> dataframe \<Rightarrow> 'w \<Rightarrow> 'w phase" where
  "save_chain E file saved chain_df w =
     (if \<not> df_empty chain_df
      then and_then (do_to_csv E file chain_df w) (do_print_arrow E (saved (df_len chain_df) file))
      else (True, w, []))"

definition save_chains :: "('w, 'f) env \<Rightarrow> string \<Rightarrow> dataframe \<Rightarrow> 'w \<Rightarrow> 'w phase" where
  "save_chains E pfx combined_df w =
     (if ''Chn1'' \<in> set (columns combined_df) \<and> ''Chn2'' \<in> set (columns combined_df)
      then
        (let ab_df = chain_rows ''A'' ''B'' combined_df;
             ba_df = chain_rows ''B'' ''A'' combined_df
         in and_then (save_chain E (ab_file pfx) SavedAB ab_df w)
              (save_chain E (ba_file pfx) SavedBA ba_df))
      else (True, w, []))"

text \<open>
  Everything \<open>main\<close> does with the combined table. The chain files are written inside
  the branch that found a Type column.
\<close>

definition save_combined :: "('w, 'f) env \<Rightarrow> string \<Rightarrow> dataframe \<Rightarrow> 'w \<Rightarrow> 'w phase" where
  "save_combined E pfx combined_df w =
     and_then
       (if ''Type'' \<in> set (columns combined_df)
        then
          (let actual_types = pd_unique key_of (map (\<lambda>r. cell_at r ''Type'') (rows combined_df))
           in and_then
                (and_then (do_print (FoundTypes actual_types) w)
                   (save_types E pfx combined_df actual_types))
                (save_chains E pfx combined_df))
        else (True, w, []))
       (\<lambda>w1. and_then (do_to_csv E (complete_file pfx) combined_df w1)
                (do_print (SavedComplete (df_len combined_df) (complete_file pfx))))"

definition save_results :: "('w, 'f) env \<Rightarrow> string \<Rightarrow> dataframe list \<Rightarrow> 'w \<Rightarrow> 'w phase" where
  "save_results E pfx all_results w =
     (if all_results \<noteq> []
      then
        (let combined_df = pd_concat (to_f64 E) all_results
         in and_then (do_print (Combined (df_len combined_df) (length all_results)) w)
              (save_combined E pfx combined_df))
      else do_print NoResults w)"

text \<open>
  How the process ends: \<open>main\<close> returns (exit status 0), \<open>sys.exit(n)\<close> is called, or
  an exception nobody catches ends the interpreter with status 1.
\<close>

datatype ending = Returned | SysExit int | Uncaught

fun exit_status :: "ending \<Rightarrow> int" where
  "exit_status Returned = 0"
| "exit_status (SysExit n) = n"
| "exit_status Uncaught = 1"

definition main :: "('w, 'f) env \<Rightarrow> 'f args \<Rightarrow> 'w \<Rightarrow> ending \<times> 'w \<times> trace" where
  "main E A w =
     (if \<not> os_path_exists E w (out_dir A)
      then (SysExit 1, w, [Print (OutDirNotFound (out_dir A))])
      else if \<not> os_path_exists E w (ipsae_script A)
      then (SysExit 1, w, [Print (ScriptNotFound (ipsae_script A))])
      else
        (case find_boltz_structures E w (out_dir A) of
           None \<Rightarrow> (Uncaught, w, [Print FindingPairs])
         | Some (structure_pairs, tr_find) \<Rightarrow>
             if structure_pairs = []
             then (SysExit 1, w, Print FindingPairs # tr_find @ [Print NoPairsFound])
             else
               (let (all_results, w1, tr_loop) =
                      process_pairs E A (length structure_pairs) 1 structure_pairs w;
                    (ok, w2, tr_save) = save_results E (output_prefix A) all_results w1
                in ((if ok then Returned else Uncaught), w2,
                    Print FindingPairs # tr_find
                    @ Print (FoundPairs (length structure_pairs)) # tr_loop
                    @ tr_save))))"

section \<open>Notions used to state the properties\<close>



text \<open>A row carries the provenance of a pair.\<close>

definition provenance :: "structure_pair \<Rightarrow> row \<Rightarrow> bool" where
  "provenance p r =
     (case p of (pae_file, cif_file, input_name) \<Rightarrow>
        cell_at r ''input_name'' = Str input_name
        \<and> cell_at r ''pae_file'' = Str (os_path_basename pae_file)
        \<and> cell_at r ''cif_file'' = Str (os_path_basename cif_file))"

text \<open>
  The pairs of a list that yield a table, each with the table parsed from its own
  report: the scoring tool is run on the pair, the report it names is read, and the
  pair counts when the table read has rows and columns. The world goes from pair to
  pair as the script leaves it (a report in the current directory is removed).
\<close>

fun parsed_reports ::
  "('w, 'f) env \<Rightarrow> 'f args \<Rightarrow> structure_pair list \<Rightarrow> 'w \<Rightarrow> (structure_pair \<times> dataframe) list" where
  "parsed_reports E A [] w = []"
| "parsed_reports E A (p # ps) w =
     (case run_ipsae E w (ipsae_script A) (fst p) (fst (snd p)) (pae_cutoff A) (dist_cutoff A) of
        (None, w1, tr) \<Rightarrow> parsed_reports E A ps w1
      | (Some txt, w1, tr) \<Rightarrow>
          (case pd_read_csv E w1 txt of
             None \<Rightarrow> parsed_reports E A ps w1
           | Some df \<Rightarrow>
               if rows df = [] \<or> columns df = [] then parsed_reports E A ps w1
               else (p, df) # parsed_reports E A ps
                      (if os_path_exists E w1 txt \<and> os_path_dirname txt = []
                       then os_remove E w1 txt else w1)))"

text \<open>
  The PAE files discovery looks at: for every entry of the predictions directory that
  is a directory, in order, what \<open>glob\<close> returns for the PAE pattern of that folder.
\<close>

definition pae_candidates ::
  "('w, 'f) env \<Rightarrow> 'w \<Rightarrow> string \<Rightarrow> string list \<Rightarrow> (string \<times> string) list" where
  "pae_candidates E w predictions_dir entries =
     concat (map (\<lambda>folder.
               map (\<lambda>pae_file. (folder, pae_file))
                 (glob_glob E w (os_path_join (os_path_join predictions_dir folder) (pae_pattern folder))))
             (filter (\<lambda>folder. os_path_isdir E w (os_path_join predictions_dir folder)) entries))"

text \<open>
  The naming convention, in the words of the specification: the model part of a PAE
  file name is what is left when the fixed prefix \<open>pae_<group>_\<close> and the fixed suffix
  \<open>.npz\<close> are stripped, and the structure file is the sibling \<open><group>_<model>.cif\<close>.
\<close>

definition spec_model_part :: "string \<Rightarrow> string \<Rightarrow> string" where
  "spec_model_part grp pae_basename =
     (let s = drop (length (''pae_'' @ grp @ ''_'')) pae_basename
      in take (length s - length ''.npz'') s)"

definition spec_cif_for :: "string \<Rightarrow> string \<times> string \<Rightarrow> string" where
  "spec_cif_for predictions_dir c =
     (case c of (grp, pae_file) \<Rightarrow>
        os_path_join (os_path_join predictions_dir grp)
          (grp @ ''_'' @ spec_model_part grp (os_path_basename pae_file) @ ''.cif''))"

text \<open>
  A PAE file name is plain when it is \<open>pae_<group>_<m>.npz\<close>, the prefix does not occur
  in \<open><m>.npz\<close> and \<open>.npz\<close> occurs at the end only.
\<close>

definition plain_name :: "string \<times> string \<Rightarrow> bool" where
  "plain_name c =
     (case c of (grp, pae_file) \<Rightarrow>
        (let b = os_path_basename pae_file; m = spec_model_part grp b
         in b = ''pae_'' @ grp @ ''_'' @ m @ ''.npz''
            \<and> \<not> sublist (''pae_'' @ grp @ ''_'') (m @ ''.npz'')
            \<and> \<not> sublist ''.npz'' (m @ ''.np'')))"

section \<open>Example environments\<close>

text \<open>
  A small world on which the definitions can be run. Under \<open>out/predictions\<close> the
  folder \<open>foo\<close> holds two PAE files, one of them with its CIF file, the folder \<open>bar\<close>
  one PAE file with its CIF file, and \<open>notes.txt\<close> is a plain file. The scoring tool
  succeeds on the structure of \<open>foo\<close>, writing its report beside the CIF file, and on
  the structure of \<open>bar\<close>, writing its report into the current directory; it exits with
  status 1 on anything else. The report for \<open>bar\<close> has no Type column, and it has
  a column \<open>input_name\<close> of its own. Files are written into the current directory:
  \<open>to_csv\<close> raises on a name with a slash. The standard output has the arrow.
\<close>

definition demo_report :: dataframe where
  "demo_report =
     \<lparr>columns = [''Chn1'', ''Chn2'', ''Type'', ''Score''],
      rows = [[(''Chn1'', Str ''A''), (''Chn2'', Str ''B''), (''Type'', Str ''asym''), (''Score'', Num 87)],
              [(''Chn1'', Str ''B''), (''Chn2'', Str ''A''), (''Type'', Str ''asym''), (''Score'', Num 80)],
              [(''Chn1'', Str ''A''), (''Chn2'', Str ''B''), (''Type'', Str ''max''), (''Score'', Num 87)]]\<rparr>"

definition bar_report :: dataframe where
  "bar_report =
     \<lparr>columns = [''Chn1'', ''Chn2'', ''pDockQ'', ''input_name''],
      rows = [[(''Chn1'', Str ''A''), (''Chn2'', Str ''B''), (''pDockQ'', Num 5),
               (''input_name'', Str ''stale'')]]\<rparr>"

definition demo_float_str :: "int \<Rightarrow> string" where
  "demo_float_str x = (if x = 15 then ''15.0'' else ''10.0'')"

definition demo_env :: "(string list, int) env" where
  "demo_env =
     \<lparr>os_path_exists = (\<lambda>w p. p \<in> set w),
      os_path_isdir = (\<lambda>w p. p \<in> set w \<and>
         p \<in> set [''out'', ''out/predictions'', ''out/predictions/foo'', ''out/predictions/bar'']),
      os_listdir = (\<lambda>w p.
         if p = ''out/predictions'' then Some [''foo'', ''bar'', ''notes.txt''] else None),
      glob_glob = (\<lambda>w p. filter (\<lambda>q. q \<in> set w)
         (if p = ''out/predictions/foo/pae_foo_model_*.npz''
          then [''out/predictions/foo/pae_foo_model_0.npz'', ''out/predictions/foo/pae_foo_model_1.npz'']
          else if p = ''out/predictions/bar/pae_bar_model_*.npz''
          then [''out/predictions/bar/pae_bar_model_0.npz'']
          else [])),
      subprocess_run = (\<lambda>w cmd.
         if cmd ! 3 = ''out/predictions/foo/foo_model_0.cif''
         then (Exited 0 [] [], ''out/predictions/foo/foo_model_0_15.0_15.0.txt'' # w)
         else if cmd ! 3 = ''out/predictions/bar/bar_model_0.cif''
         then (Exited 0 [] [], ''bar_model_0_15.0_15.0.txt'' # w)
         else (Exited 1 ''partial'' ''Traceback'', w)),
      pd_read_csv = (\<lambda>w p.
         if p = ''out/predictions/foo/foo_model_0_15.0_15.0.txt'' then Some demo_report
         else if p = ''bar_model_0_15.0_15.0.txt'' then Some bar_report
         else None),
      os_remove = (\<lambda>w p. removeAll p w),
      to_csv = (\<lambda>w f df. if CHR ''/'' \<in> set f then (False, w) else (True, f # w)),
      stdout_encodes_arrow = True,
      float_str = demo_float_str,
      f64_str = (\<lambda>x. if x = 1 then ''1.0'' else ''0.0''),
      to_f64 = (\<lambda>n. of_int n)\<rparr>"

definition demo_world :: "string list" where
  "demo_world =
     [''out'', ''ipsae.py'', ''out/predictions'', ''out/predictions/foo'', ''out/predictions/bar'',
      ''out/predictions/notes.txt'',
      ''out/predictions/foo/pae_foo_model_0.npz'', ''out/predictions/foo/foo_model_0.cif'',
      ''out/predictions/foo/pae_foo_model_1.npz'',
      ''out/predictions/bar/pae_bar_model_0.npz'', ''out/predictions/bar/bar_model_0.cif'']"

definition demo_args :: "int args" where
  "demo_args = \<lparr>out_dir = ''out'', ipsae_script = ''ipsae.py'', pae_cutoff = 15, dist_cutoff = 15,
                 output_prefix = ''ipsae_results''\<rparr>"

text \<open>A world without the predictions directory, and one where it is empty of folders.\<close>

definition empty_world :: "string list" where
  "empty_world = [''out'', ''ipsae.py'']"

definition bare_world :: "string list" where
  "bare_world = [''out'', ''ipsae.py'', ''out/predictions'']"




definition chain_only :: dataframe where
  "chain_only =
     \<lparr>columns = [''Chn1'', ''Chn2'', ''Score''],
      rows = [[(''Chn1'', Str ''A''), (''Chn2'', Str ''B''), (''Score'', Num 1)]]\<rparr>"

text \<open>An environment whose parser returns a table with a header and no row.\<close>

definition header_only_env :: "(string list, int) env" where
  "header_only_env =
     demo_env\<lparr>pd_read_csv := (\<lambda>w p. Some \<lparr>columns = [''Chn1'', ''Chn2'', ''Type''], rows = []\<rparr>)\<rparr>"


text \<open>An environment whose scoring tool exits with status 0 and writes nothing.\<close>

definition silent_env :: "(string list, int) env" where
  "silent_env = demo_env\<lparr>subprocess_run := (\<lambda>w cmd. (Exited 0 [] [], w))\<rparr>"

text \<open>A world in which only the folder \<open>bar\<close> exists under the predictions directory.\<close>

definition bar_world :: "string list" where
  "bar_world =
     [''out'', ''ipsae.py'', ''out/predictions'', ''out/predictions/bar'',
      ''out/predictions/bar/pae_bar_model_0.npz'', ''out/predictions/bar/bar_model_0.cif'']"

definition bar_pair :: structure_pair where
  "bar_pair =
     (''out/predictions/bar/pae_bar_model_0.npz'', ''out/predictions/bar/bar_model_0.cif'', ''bar'')"





text \<open>An environment whose scoring tool fails on \<open>foo\<close> and succeeds on \<open>bar\<close>.\<close>

definition foo_fails_env :: "(string list, int) env" where
  "foo_fails_env =
     demo_env\<lparr>subprocess_run := (\<lambda>w cmd.
        if cmd ! 3 = ''out/predictions/bar/bar_model_0.cif''
        then (Exited 0 [] [], ''bar_model_0_15.0_15.0.txt'' # w)
        else (Exited 1 [] ''error'', w))\<rparr>"

text \<open>
  A world whose folder \<open>foo\<close> holds the PAE file \<open>pae_foo_model_a.npz.npz\<close> and the
  structure file \<open>foo_model_a.npz.cif\<close>.
\<close>

definition odd_world :: "string list" where
  "odd_world =
     [''out'', ''ipsae.py'', ''out/predictions'', ''out/predictions/foo'',
      ''out/predictions/foo/pae_foo_model_a.npz.npz'', ''out/predictions/foo/foo_model_a.npz.cif'']"

definition odd_env :: "(string list, int) env" where
  "odd_env =
     demo_env\<lparr>os_listdir := (\<lambda>w p. if p = ''out/predictions'' then Some [''foo''] else None),
              glob_glob := (\<lambda>w p. filter (\<lambda>q. q \<in> set w)
                 (if p = ''out/predictions/foo/pae_foo_model_*.npz''
                  then [''out/predictions/foo/pae_foo_model_a.npz.npz''] else []))\<rparr>"

text \<open>
  A world in which the PAE file of \<open>bar\<close> is a symbolic link to nothing: the directory
  lists it, so \<open>glob\<close> returns it, and \<open>os.path.exists\<close> is false on it.
\<close>

definition dangling_world :: "string list" where
  "dangling_world =
     [''out'', ''ipsae.py'', ''out/predictions'', ''out/predictions/bar'',
      ''out/predictions/bar/bar_model_0.cif'']"

definition dangling_env :: "(string list, int) env" where
  "dangling_env =
     demo_env\<lparr>glob_glob := (\<lambda>w p.
        if p = ''out/predictions/bar/pae_bar_model_*.npz''
        then [''out/predictions/bar/pae_bar_model_0.npz''] else [])\<rparr>"

section \<open>The trace of each phase\<close>

lemma writes_append: "writes (xs @ ys) = writes xs @ writes ys"
  by (induction xs rule: writes.induct) simp_all

lemma removals_append: "removals (xs @ ys) = removals xs @ removals ys"
  by (induction xs rule: removals.induct) simp_all

lemma warnings_append: "warnings (xs @ ys) = warnings xs @ warnings ys"
  by (induction xs rule: warnings.induct) simp_all

text \<open>Discovery, the scoring tool and the parser write no CSV file.\<close>

lemma writes_scan_pae_files:
  "writes (snd (scan_pae_files E w ip f ps)) = []"
  by (induction ps) (auto simp: Let_def split: prod.splits)

lemma writes_scan_folders:
  "writes (snd (scan_folders E w pd fs)) = []"
proof (induction fs)
  case Nil
  show ?case by simp
next
  case (Cons f fs)
  have "writes (snd (scan_pae_files E w ip f ps)) = []" for ip ps
    by (rule writes_scan_pae_files)
  then show ?case using Cons
    by (auto simp: Let_def writes_append split: prod.splits)
       (metis snd_conv)+
qed

lemma writes_find:
  "find_boltz_structures E w d = Some (ps, tr) \<Longrightarrow> writes tr = []"
  unfolding find_boltz_structures_def Let_def
  by (auto split: if_splits option.splits) (metis snd_conv writes_scan_folders)





section \<open>Fatal conditions\<close>

text \<open>
  Claim C5. When the predictions directory is absent, or discovery returns no pair,
  the process ends with a non-zero exit status and no CSV file has been written.
\<close>

theorem main_no_pairs_exits_nonzero:
  assumes "\<not> os_path_exists E w (os_path_join (out_dir A) ''predictions'')
           \<or> find_boltz_structures E w (out_dir A) = Some ([], tr)"
  shows "exit_status (fst (main E A w)) \<noteq> 0 \<and> writes (snd (snd (main E A w))) = []"
proof -
  have "\<exists>tr'. find_boltz_structures E w (out_dir A) = Some ([], tr')"
  proof (cases "os_path_exists E w (os_path_join (out_dir A) ''predictions'')")
    case True
    with assms show ?thesis by blast
  next
    case False
    then show ?thesis by (simp add: find_boltz_structures_def)
  qed
  then obtain tr' where f: "find_boltz_structures E w (out_dir A) = Some ([], tr')" ..
  have "writes tr' = []" using writes_find[OF f] .
  then show ?thesis
    by (simp add: main_def f writes_append)
qed

theorem main_no_pairs_exits_nonzero_witness:
  "\<not> os_path_exists demo_env empty_world (os_path_join (out_dir demo_args) ''predictions'')
   \<and> exit_status (fst (main demo_env demo_args empty_world)) \<noteq> 0
   \<and> writes (snd (snd (main demo_env demo_args empty_world))) = []
   \<and> find_boltz_structures demo_env bare_world (out_dir demo_args) = Some ([], [])
   \<and> exit_status (fst (main demo_env demo_args bare_world)) \<noteq> 0
   \<and> writes (snd (snd (main demo_env demo_args bare_world))) = []"
proof -
  have h1: "\<not> os_path_exists demo_env empty_world (os_path_join (out_dir demo_args) ''predictions'')"
    by code_simp
  have h2: "find_boltz_structures demo_env bare_world (out_dir demo_args) = Some ([], [])"
    by code_simp
  show ?thesis
    using h1 h2 main_no_pairs_exits_nonzero[of demo_env empty_world demo_args]
      main_no_pairs_exits_nonzero[of demo_env bare_world demo_args "[]"]
    by blast
qed

section \<open>No table at all\<close>




section \<open>Locating the report\<close>

text \<open>
  For a structure file \<open>d/b.cif\<close> whose base name \<open>b\<close> has no slash and does not
  consist of dots only, the base name without extension is \<open>b\<close>.
\<close>

lemma takeWhile_neq_upto: "c \<notin> set xs \<Longrightarrow> takeWhile (\<lambda>x. x \<noteq> c) (xs @ c # ys) = xs"
  by (induction xs) auto

lemma dropWhile_neq_upto: "c \<notin> set xs \<Longrightarrow> dropWhile (\<lambda>x. x \<noteq> c) (xs @ c # ys) = c # ys"
  by (induction xs) auto

lemma takeWhile_neq_all: "c \<notin> set xs \<Longrightarrow> takeWhile (\<lambda>x. x \<noteq> c) xs = xs"
  by (induction xs) auto

lemma dropWhile_neq_all: "c \<notin> set xs \<Longrightarrow> dropWhile (\<lambda>x. x \<noteq> c) xs = []"
  by (induction xs) auto

lemma basename_append:
  "CHR ''/'' \<notin> set b \<Longrightarrow> os_path_basename (d @ CHR ''/'' # b) = b"
  by (simp add: os_path_basename_def takeWhile_neq_upto)

lemma basename_plain:
  "CHR ''/'' \<notin> set b \<Longrightarrow> os_path_basename b = b"
  by (simp add: os_path_basename_def takeWhile_neq_all)

lemma splitext_simple:
  assumes "CHR ''/'' \<notin> set b" and "CHR ''/'' \<notin> set e" and "CHR ''.'' \<notin> set e"
    and "\<exists>c\<in>set b. c \<noteq> CHR ''.''"
  shows "os_path_splitext (b @ CHR ''.'' # e) = (b, CHR ''.'' # e)"
proof -
  have n: "CHR ''/'' \<notin> set (b @ CHR ''.'' # e)" using assms by auto
  have bn: "os_path_basename (b @ CHR ''.'' # e) = b @ CHR ''.'' # e"
    using n by (rule basename_plain)
  have "dropWhile (\<lambda>c. c \<noteq> CHR ''/'') (rev (b @ CHR ''.'' # e)) = []"
    using n by (intro dropWhile_neq_all) simp
  then have hd: "dropWhile (\<lambda>c. c \<noteq> CHR ''/'') (rev e @ CHR ''.'' # rev b) = []"
    by simp
  have tw: "takeWhile (\<lambda>c. c \<noteq> CHR ''.'') (rev e @ CHR ''.'' # rev b) = rev e"
    using assms(3) by (simp add: takeWhile_neq_upto)
  have dw: "dropWhile (\<lambda>c. c \<noteq> CHR ''.'') (rev e @ CHR ''.'' # rev b) = CHR ''.'' # rev b"
    using assms(3) by (simp add: dropWhile_neq_upto)
  show ?thesis
    using assms(4) by (simp add: os_path_splitext_def Let_def bn hd tw dw list_ex_iff)
qed

lemma stem_of_cif:
  assumes "CHR ''/'' \<notin> set b" and "\<exists>c\<in>set b. c \<noteq> CHR ''.''"
  shows "fst (os_path_splitext (os_path_basename (d @ ''/'' @ b @ ''.cif''))) = b"
proof -
  have 1: "os_path_basename (d @ ''/'' @ b @ ''.cif'') = b @ ''.cif''"
    using basename_append[of "b @ ''.cif''" d] assms(1) by simp
  show ?thesis
    unfolding 1 using splitext_simple[of b "''cif''"] assms by simp
qed

text \<open>
  Claim C3. When the scoring command exits with status 0, the expected report name is
  the base name of the structure file without its extension, followed by the two
  cutoffs, printed by the same \<open>str\<close> that printed them into the command line, and
  \<open>.txt\<close>. That name is looked up in the world the child left behind, first as it is
  (the current directory), then in the directory of the structure file; the first path
  that exists is returned; when neither exists a warning is printed and the result is
  \<open>None\<close>.
\<close>

theorem run_ipsae_locates_report:
  assumes "subprocess_run E w (ipsae_cmd E script pae cif pc dc) = (Exited 0 out err, w')"
  shows "output_txt_name E cif pc dc =
           fst (os_path_splitext (os_path_basename cif)) @ ''_'' @ float_str E pc @ ''_''
             @ float_str E dc @ ''.txt''
         \<and> ipsae_cmd E script pae cif pc dc = [''python'', script, pae, cif, float_str E pc, float_str E dc]
         \<and> run_ipsae E w script pae cif pc dc =
             (if os_path_exists E w' (output_txt_name E cif pc dc)
              then (Some (output_txt_name E cif pc dc), w',
                    [Print (Running (ipsae_cmd E script pae cif pc dc)), Exec (ipsae_cmd E script pae cif pc dc)])
              else if os_path_exists E w' (os_path_join (os_path_dirname cif) (output_txt_name E cif pc dc))
              then (Some (os_path_join (os_path_dirname cif) (output_txt_name E cif pc dc)), w',
                    [Print (Running (ipsae_cmd E script pae cif pc dc)), Exec (ipsae_cmd E script pae cif pc dc)])
              else (None, w',
                    [Print (Running (ipsae_cmd E script pae cif pc dc)), Exec (ipsae_cmd E script pae cif pc dc),
                     Print (WarnOutputNotFound (output_txt_name E cif pc dc))]))"
  using assms by (simp add: run_ipsae_def Let_def output_txt_name_def ipsae_cmd_def)

theorem run_ipsae_locates_report_witness:
  "subprocess_run demo_env demo_world
     (ipsae_cmd demo_env ''ipsae.py'' ''out/predictions/foo/pae_foo_model_0.npz''
        ''out/predictions/foo/foo_model_0.cif'' 15 15)
     = (Exited 0 [] [], ''out/predictions/foo/foo_model_0_15.0_15.0.txt'' # demo_world)
   \<and> output_txt_name demo_env ''out/predictions/foo/foo_model_0.cif'' 15 15 = ''foo_model_0_15.0_15.0.txt''
   \<and> fst (run_ipsae demo_env demo_world ''ipsae.py'' ''out/predictions/foo/pae_foo_model_0.npz''
        ''out/predictions/foo/foo_model_0.cif'' 15 15)
     = Some ''out/predictions/foo/foo_model_0_15.0_15.0.txt''
   \<and> subprocess_run demo_env demo_world
     (ipsae_cmd demo_env ''ipsae.py'' ''out/predictions/bar/pae_bar_model_0.npz''
        ''out/predictions/bar/bar_model_0.cif'' 15 15)
     = (Exited 0 [] [], ''bar_model_0_15.0_15.0.txt'' # demo_world)
   \<and> fst (run_ipsae demo_env demo_world ''ipsae.py'' ''out/predictions/bar/pae_bar_model_0.npz''
        ''out/predictions/bar/bar_model_0.cif'' 15 15)
     = Some ''bar_model_0_15.0_15.0.txt''
   \<and> subprocess_run silent_env demo_world
     (ipsae_cmd silent_env ''ipsae.py'' ''out/predictions/bar/pae_bar_model_0.npz''
        ''out/predictions/bar/bar_model_0.cif'' 15 15)
     = (Exited 0 [] [], demo_world)
   \<and> fst (run_ipsae silent_env demo_world ''ipsae.py'' ''out/predictions/bar/pae_bar_model_0.npz''
        ''out/predictions/bar/bar_model_0.cif'' 15 15) = None
   \<and> last (snd (snd (run_ipsae silent_env demo_world ''ipsae.py''
        ''out/predictions/bar/pae_bar_model_0.npz'' ''out/predictions/bar/bar_model_0.cif'' 15 15)))
     = Print (WarnOutputNotFound ''bar_model_0_15.0_15.0.txt'')"
proof -
  have h1: "subprocess_run demo_env demo_world
     (ipsae_cmd demo_env ''ipsae.py'' ''out/predictions/foo/pae_foo_model_0.npz''
        ''out/predictions/foo/foo_model_0.cif'' 15 15)
     = (Exited 0 [] [], ''out/predictions/foo/foo_model_0_15.0_15.0.txt'' # demo_world)"
    by code_simp
  have h2: "subprocess_run demo_env demo_world
     (ipsae_cmd demo_env ''ipsae.py'' ''out/predictions/bar/pae_bar_model_0.npz''
        ''out/predictions/bar/bar_model_0.cif'' 15 15)
     = (Exited 0 [] [], ''bar_model_0_15.0_15.0.txt'' # demo_world)"
    by code_simp
  have h3: "subprocess_run silent_env demo_world
     (ipsae_cmd silent_env ''ipsae.py'' ''out/predictions/bar/pae_bar_model_0.npz''
        ''out/predictions/bar/bar_model_0.cif'' 15 15)
     = (Exited 0 [] [], demo_world)"
    by code_simp
  have n1: "output_txt_name demo_env ''out/predictions/foo/foo_model_0.cif'' 15 15 = ''foo_model_0_15.0_15.0.txt''"
    by code_simp
  have n2: "output_txt_name demo_env ''out/predictions/bar/bar_model_0.cif'' 15 15 = ''bar_model_0_15.0_15.0.txt''"
    by code_simp
  have n3: "output_txt_name silent_env ''out/predictions/bar/bar_model_0.cif'' 15 15 = ''bar_model_0_15.0_15.0.txt''"
    by code_simp
  have e1: "\<not> os_path_exists demo_env (''out/predictions/foo/foo_model_0_15.0_15.0.txt'' # demo_world)
              ''foo_model_0_15.0_15.0.txt''"
    by code_simp
  have e2: "os_path_exists demo_env (''out/predictions/foo/foo_model_0_15.0_15.0.txt'' # demo_world)
              (os_path_join (os_path_dirname ''out/predictions/foo/foo_model_0.cif'') ''foo_model_0_15.0_15.0.txt'')"
    by code_simp
  have j2: "os_path_join (os_path_dirname ''out/predictions/foo/foo_model_0.cif'') ''foo_model_0_15.0_15.0.txt''
            = ''out/predictions/foo/foo_model_0_15.0_15.0.txt''"
    by code_simp
  have e3: "os_path_exists demo_env (''bar_model_0_15.0_15.0.txt'' # demo_world) ''bar_model_0_15.0_15.0.txt''"
    by code_simp
  have e4: "\<not> os_path_exists silent_env demo_world ''bar_model_0_15.0_15.0.txt''"
    by code_simp
  have e5: "\<not> os_path_exists silent_env demo_world
              (os_path_join (os_path_dirname ''out/predictions/bar/bar_model_0.cif'') ''bar_model_0_15.0_15.0.txt'')"
    by code_simp
  show ?thesis
    using run_ipsae_locates_report[OF h1] run_ipsae_locates_report[OF h2]
      run_ipsae_locates_report[OF h3] h1 h2 h3 n1 n2 n3 e1 e2 j2 e3 e4 e5
    by simp
qed

section \<open>A failing scoring tool\<close>




section \<open>A report without rows\<close>

lemma os_path_join_nonempty: "b \<noteq> [] \<Longrightarrow> os_path_join a b \<noteq> []"
  by (simp add: os_path_join_def)

lemma run_ipsae_path_nonempty:
  "run_ipsae E w s pae cif pc dc = (Some txt, w1, tr) \<Longrightarrow> txt \<noteq> []"
  unfolding run_ipsae_def Let_def
  by (auto simp: output_txt_name_def os_path_join_nonempty
           split: prod.splits proc_outcome.splits if_splits)

lemma removals_run_ipsae:
  "removals (snd (snd (run_ipsae E w s pae cif pc dc))) = []"
  unfolding run_ipsae_def Let_def
  by (auto split: prod.splits proc_outcome.splits)

lemma run_ipsae_read_csv_irrelevant:
  "run_ipsae (E\<lparr>pd_read_csv := f\<rparr>) w s pae cif pc dc = run_ipsae E w s pae cif pc dc"
proof -
  have 1: "ipsae_cmd (E\<lparr>pd_read_csv := f\<rparr>) s pae cif pc dc = ipsae_cmd E s pae cif pc dc"
    by (simp add: ipsae_cmd_def)
  have 2: "output_txt_name (E\<lparr>pd_read_csv := f\<rparr>) cif pc dc = output_txt_name E cif pc dc"
    by (simp add: output_txt_name_def)
  show ?thesis
    by (simp add: run_ipsae_def 1 2 Let_def split: prod.splits proc_outcome.splits)
qed

text \<open>
  Claim C10. When the report is found and parses to a table without rows, the loop
  body contributes no table, so no metadata column is added to anything; the world
  stays as the child left it and no \<open>os.remove\<close> is called; the last message is the
  one printed when parsing fails. With a parser that fails on the same report the body
  does the same, apart from the parser's own error message. The loop's tables are those
  of the remaining pairs.
\<close>

theorem header_only_report_is_skipped:
  assumes "run_ipsae E w (ipsae_script A) pae_file cif_file (pae_cutoff A) (dist_cutoff A)
             = (Some txt, w1, tr_run)"
    and "pd_read_csv E w1 txt = Some df" and "rows df = []"
  shows "process_pair E A n i (pae_file, cif_file, input_name) w =
           (None, w1, Print (Processing i n input_name) # tr_run @ [Print (FailedToParse txt)])
         \<and> removals (Print (Processing i n input_name) # tr_run @ [Print (FailedToParse txt)]) = []
         \<and> process_pair (E\<lparr>pd_read_csv := (\<lambda>w p. None)\<rparr>) A n i (pae_file, cif_file, input_name) w =
           (None, w1, Print (Processing i n input_name) # tr_run
                      @ [Print (ErrorParsing txt), Print (FailedToParse txt)])
         \<and> fst (process_pairs E A n i ((pae_file, cif_file, input_name) # rest) w)
             = fst (process_pairs E A n (Suc i) rest w1)"
proof -
  have ne: "txt \<noteq> []" using run_ipsae_path_nonempty[OF assms(1)] .
  have rm: "removals tr_run = []"
    using removals_run_ipsae[of E w "ipsae_script A" pae_file cif_file "pae_cutoff A" "dist_cutoff A"]
      assms(1) by simp
  have 1: "process_pair E A n i (pae_file, cif_file, input_name) w =
           (None, w1, Print (Processing i n input_name) # tr_run @ [Print (FailedToParse txt)])"
    using ne assms(2,3)
    by (simp add: process_pair_def assms(1) parse_ipsae_output_def df_empty_def)
  have 2: "process_pair (E\<lparr>pd_read_csv := (\<lambda>w p. None)\<rparr>) A n i (pae_file, cif_file, input_name) w =
           (None, w1, Print (Processing i n input_name) # tr_run
                      @ [Print (ErrorParsing txt), Print (FailedToParse txt)])"
    using ne
    by (simp add: process_pair_def run_ipsae_read_csv_irrelevant assms(1) parse_ipsae_output_def)
  show ?thesis
    by (simp add: 1 2 rm removals_append split: prod.splits)
qed

theorem header_only_report_is_skipped_witness:
  "fst (run_ipsae header_only_env demo_world (ipsae_script demo_args) ''out/predictions/bar/pae_bar_model_0.npz'' ''out/predictions/bar/bar_model_0.cif''
          (pae_cutoff demo_args) (dist_cutoff demo_args)) = Some ''bar_model_0_15.0_15.0.txt''
   \<and> pd_read_csv header_only_env (''bar_model_0_15.0_15.0.txt'' # demo_world) ''bar_model_0_15.0_15.0.txt''
       = Some \<lparr>columns = [''Chn1'', ''Chn2'', ''Type''], rows = []\<rparr>
   \<and> fst (process_pair header_only_env demo_args 2 2 (''out/predictions/bar/pae_bar_model_0.npz'', ''out/predictions/bar/bar_model_0.cif'', ''bar'') demo_world) = None
   \<and> fst (snd (process_pair header_only_env demo_args 2 2 (''out/predictions/bar/pae_bar_model_0.npz'', ''out/predictions/bar/bar_model_0.cif'', ''bar'') demo_world))
       = ''bar_model_0_15.0_15.0.txt'' # demo_world
   \<and> removals (snd (snd (process_pair header_only_env demo_args 2 2 (''out/predictions/bar/pae_bar_model_0.npz'', ''out/predictions/bar/bar_model_0.cif'', ''bar'') demo_world))) = []
   \<and> removals (snd (snd (process_pair demo_env demo_args 2 2 (''out/predictions/bar/pae_bar_model_0.npz'', ''out/predictions/bar/bar_model_0.cif'', ''bar'') demo_world)))
       = [''bar_model_0_15.0_15.0.txt'']"
proof -
  let ?r = "run_ipsae header_only_env demo_world (ipsae_script demo_args) ''out/predictions/bar/pae_bar_model_0.npz'' ''out/predictions/bar/bar_model_0.cif''
          (pae_cutoff demo_args) (dist_cutoff demo_args)"
  have f: "fst ?r = Some ''bar_model_0_15.0_15.0.txt''" by code_simp
  have s: "fst (snd ?r) = ''bar_model_0_15.0_15.0.txt'' # demo_world" by code_simp
  have r: "?r = (Some ''bar_model_0_15.0_15.0.txt'', ''bar_model_0_15.0_15.0.txt'' # demo_world, snd (snd ?r))"
    using f s by (simp add: prod_eq_iff)
  have p: "pd_read_csv header_only_env (''bar_model_0_15.0_15.0.txt'' # demo_world) ''bar_model_0_15.0_15.0.txt''
       = Some \<lparr>columns = [''Chn1'', ''Chn2'', ''Type''], rows = []\<rparr>"
    by code_simp
  have e: "rows \<lparr>columns = [''Chn1'', ''Chn2'', ''Type''], rows = []\<rparr> = []" by simp
  have d: "removals (snd (snd (process_pair demo_env demo_args 2 2 (''out/predictions/bar/pae_bar_model_0.npz'', ''out/predictions/bar/bar_model_0.cif'', ''bar'') demo_world)))
       = [''bar_model_0_15.0_15.0.txt'']"
    by code_simp
  show ?thesis
    using header_only_report_is_skipped[OF r p e, of 2 2 "''bar''" "[]"] f p d by simp
qed

section \<open>Facts about data frames\<close>










lemma upcast_cases:
  "upcast f t v = (if t = Float64 \<and> is_int v then Flt (f (case v of Num n \<Rightarrow> n | _ \<Rightarrow> 0)) else v)"
  by (cases v) (simp_all add: upcast_def is_int_def)

lemma upcast_Str [simp]: "upcast f t (Str s) = Str s"
  by (simp add: upcast_def)



section \<open>The saving, when nothing raises\<close>



lemma and_then_stops:
  "\<not> fst r \<Longrightarrow> and_then r f = (False, snd r)"
  by (cases r) (simp add: and_then_def)


lemma do_print_simps [simp]:
  "fst (do_print m w)" "fst (snd (do_print m w)) = w" "snd (snd (do_print m w)) = [Print m]"
  by (simp_all add: do_print_def)


















lemma rows_chain_rows:
  "rows (chain_rows a b df) =
     filter (\<lambda>r. cell_at r ''Chn1'' = Str a \<and> cell_at r ''Chn2'' = Str b) (rows df)"
proof -
  have "cell_eq v (Str s) \<longleftrightarrow> v = Str s" for v s
    by (cases v) (auto simp: cell_eq_def)
  then show ?thesis by (simp add: chain_rows_def select_rows_def)
qed





section \<open>The complete table\<close>





section \<open>One file for each type\<close>




section \<open>The chain files\<close>

text \<open>
  Claim C1: a combined table with the columns Chn1 and Chn2 gets its A to B and B to A
  files whether or not it has a Type column. The code writes them inside the branch
  that found a Type column (the block of lines 216 to 229 is nested under the test of
  line 202). The table \<open>chain_only\<close> has both chain columns, no Type column and one row
  from chain A to chain B: the only file written is \<open>p_complete.csv\<close>, and the same rows
  with a Type column added get \<open>p_A_to_B.csv\<close>. So does a whole run on a world whose
  only folder is \<open>bar\<close>, whose report has no Type column: the combined table has the two
  chain columns and an A to B row, \<open>main\<close> returns and the only file written is the
  complete one.
\<close>

theorem chain_files_skipped_without_type:
  "''Chn1'' \<in> set (columns chain_only) \<and> ''Chn2'' \<in> set (columns chain_only)
   \<and> ''Type'' \<notin> set (columns chain_only)
   \<and> df_len (chain_rows ''A'' ''B'' chain_only) = 1
   \<and> fst (save_combined demo_env ''p'' chain_only [])
   \<and> map fst (writes (snd (snd (save_combined demo_env ''p'' chain_only [])))) = [''p_complete.csv'']
   \<and> map fst (writes (snd (snd (save_combined demo_env ''p''
                                   (set_column ''Type'' (Str ''asym'') chain_only) []))))
       = [''p_asym.csv'', ''p_A_to_B.csv'', ''p_complete.csv'']
   \<and> map_option fst (find_boltz_structures demo_env bar_world ''out'') = Some [bar_pair]
   \<and> columns (pd_concat (to_f64 demo_env) (fst (process_pairs demo_env demo_args 1 1 [bar_pair] bar_world)))
       = [''Chn1'', ''Chn2'', ''pDockQ'', ''input_name'', ''pae_file'', ''cif_file'']
   \<and> map (\<lambda>r. (cell_at r ''Chn1'', cell_at r ''Chn2''))
         (rows (pd_concat (to_f64 demo_env) (fst (process_pairs demo_env demo_args 1 1 [bar_pair] bar_world))))
       = [(Str ''A'', Str ''B'')]
   \<and> fst (main demo_env demo_args bar_world) = Returned
   \<and> map fst (writes (snd (snd (main demo_env demo_args bar_world)))) = [''ipsae_results_complete.csv'']"
  by code_simp

end
